theory Spec2Isabelle
  imports Main
begin

section \<open>Python values seen by \<^verbatim>\<open>pyrtl/memory.py\<close>\<close>

text \<open>
  The module raises \<^verbatim>\<open>core.PyrtlError\<close> and \<^verbatim>\<open>core.PyrtlInternalError\<close>, each with a
  message, and catches \<^verbatim>\<open>Exception\<close>, \<^verbatim>\<open>TypeError\<close> and \<^verbatim>\<open>IndexError\<close>. An exception
  that does not derive from \<^verbatim>\<open>Exception\<close> (\<^verbatim>\<open>KeyboardInterrupt\<close>, \<^verbatim>\<open>SystemExit\<close>) is
  \<open>BaseExceptionOnly\<close>; every other exception class is \<open>OtherException\<close> with its name.
\<close>

datatype pyexc =
    PyrtlError string
  | PyrtlInternalError string
  | TypeError
  | IndexError
  | OtherException string
  | BaseExceptionOnly string

fun is_Exception :: "pyexc \<Rightarrow> bool" where
  "is_Exception (BaseExceptionOnly _) = False"
| "is_Exception _ = True"

type_synonym blockref = nat
type_synonym memref = nat

text \<open>
  A \<^verbatim>\<open>wire.WireVector\<close> as far as this module looks at it: the identity of the Python
  object, its \<^verbatim>\<open>len\<close>, and for a \<^verbatim>\<open>wire.Const\<close> the value it holds.
\<close>

record wire =
  wire_obj :: nat
  wire_bitwidth :: int
  wire_const :: "int option"
  wire_block :: blockref

text \<open>\<^verbatim>\<open>core.LogicNet\<close>, a named tuple \<^verbatim>\<open>(op, op_param, args, dests)\<close>.\<close>

record logicnet =
  op :: char
  op_param :: "nat \<times> memref"
  args :: "wire list"
  dests :: "wire list"

text \<open>
  The data source of a \<^verbatim>\<open>RomBlock\<close>: a function (\<^verbatim>\<open>types.FunctionType\<close>), a list, or any
  other object, described by what subscripting it does (\<^verbatim>\<open>None\<close> raises \<^verbatim>\<open>TypeError\<close>,
  a dictionary raises \<^verbatim>\<open>KeyError\<close> on a missing key).
\<close>

datatype romdata =
    DFunction "int \<Rightarrow> pyexc + int"
  | DList "int list"
  | DObject "int \<Rightarrow> pyexc + int"

datatype memclass = MemReadBase_cls | MemBlock_cls | RomBlock_cls

text \<open>
  The attributes of a memory object. \<open>memid\<close> is the attribute \<^verbatim>\<open>id\<close>. \<open>writeport_nets\<close>
  exists on a \<^verbatim>\<open>MemBlock\<close> only and \<open>data\<close> on a \<^verbatim>\<open>RomBlock\<close> only; on the other
  classes the fields keep the placeholders \<open>[]\<close> and \<open>no_data\<close>, which no method reads.
\<close>

record memory =
  cls :: memclass
  block :: blockref
  bitwidth :: int
  name :: string
  addrwidth :: int
  readport_nets :: "logicnet list"
  memid :: nat
  writeport_nets :: "logicnet list"
  data :: romdata

definition no_data :: romdata where
  "no_data = DObject (\<lambda>_. Inl TypeError)"

text \<open>\<^verbatim>\<open>_MemIndexed(mem, index)\<close>: a reference to the memory and the coerced address.\<close>

datatype memindexed = MemIndexed (mem: memref) (index: wire)

text \<open>
  The values that reach the module as address expressions, right-hand sides and
  assignments. \<open>PEnabledWrite\<close> is \<^verbatim>\<open>MemBlock.EnabledWrite(data, enable)\<close> and
  \<open>PMemAssignment\<close> is \<^verbatim>\<open>_MemAssignment(rhs, is_conditional)\<close>.
\<close>

datatype pyval =
    PNone
  | PInt int
  | PStr string
  | PWire wire
  | PMemIndexed memindexed
  | PEnabledWrite pyval pyval
  | PMemAssignment pyval bool

section \<open>The construction context\<close>

text \<open>
  Objects are mutable and shared: a net refers to its memory (\<^verbatim>\<open>op_param = (id, self)\<close>),
  a memory to its block. The world holds the memory objects by reference (\<open>heap\<close>), the
  nets of every block (\<open>logic\<close>), the ambient working block and the counters behind
  \<^verbatim>\<open>core.next_tempvar_name\<close>, \<^verbatim>\<open>core.next_memid\<close> and object allocation.
\<close>

record world =
  working :: blockref
  tempvar_count :: nat
  memid_count :: nat
  next_obj :: nat
  logic :: "blockref \<Rightarrow> logicnet list"
  heap :: "memref \<Rightarrow> memory"

text \<open>
  A Python call either returns or raises, and in both cases leaves a world behind.
\<close>

type_synonym 'a py = "world \<Rightarrow> (pyexc + 'a) \<times> world"

definition ret :: "'a \<Rightarrow> 'a py" where
  "ret x = (\<lambda>s. (Inr x, s))"

definition raise :: "pyexc \<Rightarrow> 'a py" where
  "raise e = (\<lambda>s. (Inl e, s))"

definition bind_py :: "'a py \<Rightarrow> ('a \<Rightarrow> 'b py) \<Rightarrow> 'b py" where
  "bind_py f g = (\<lambda>s. case f s of (Inl e, s') \<Rightarrow> (Inl e, s') | (Inr x, s') \<Rightarrow> g x s')"

definition attr :: "(memory \<Rightarrow> 'a) \<Rightarrow> memref \<Rightarrow> 'a py" where
  "attr f self = (\<lambda>s. (Inr (f (heap s self)), s))"

subsection \<open>Decimal text of an integer, Python's \<^verbatim>\<open>str\<close>\<close>

definition digit_char :: "nat \<Rightarrow> char" where
  "digit_char d = char_of (48 + d)"

fun str_nat :: "nat \<Rightarrow> string" where
  "str_nat n = (if n < 10 then [digit_char n] else str_nat (n div 10) @ [digit_char (n mod 10)])"

definition str_int :: "int \<Rightarrow> string" where
  "str_int i = (if i < 0 then CHR ''-'' # str_nat (nat (- i)) else str_nat (nat i))"

subsection \<open>\<^verbatim>\<open>core\<close> and \<^verbatim>\<open>wire\<close>\<close>

text \<open>
  Modelled from the spec: \<^verbatim>\<open>core.working_block\<close> is not among the sources. The spec has
  an owning netlist reference and an implicit shared construction context: a block that is
  given is the block, and without one the ambient working block is.
\<close>

definition working_block :: "blockref option \<Rightarrow> blockref py" where
  "working_block b = (\<lambda>s. (Inr (case b of None \<Rightarrow> working s | Some blk \<Rightarrow> blk), s))"

text \<open>
  Modelled from the spec: \<^verbatim>\<open>core.next_tempvar_name\<close> is not among the sources. The spec's
  \<^verbatim>\<open>nextName(hint?)\<close> assigns the name that is given or generates a unique one.
\<close>

definition next_tempvar_name :: "string option \<Rightarrow> string py" where
  "next_tempvar_name n = (\<lambda>s. case n of
       None \<Rightarrow> (Inr (''tmp'' @ str_nat (tempvar_count s)),
                s\<lparr>tempvar_count := tempvar_count s + 1\<rparr>)
     | Some nm \<Rightarrow> (Inr nm, s))"

text \<open>
  Modelled from the spec: \<^verbatim>\<open>core.next_memid\<close> is not among the sources. The spec's
  \<^verbatim>\<open>nextId()\<close> allocates a netlist-unique identifier.
\<close>

definition next_memid :: "nat py" where
  "next_memid = (\<lambda>s. (Inr (memid_count s), s\<lparr>memid_count := memid_count s + 1\<rparr>))"

text \<open>
  Modelled from the spec: \<^verbatim>\<open>Block.add_net\<close> is not among the sources. The spec's
  \<^verbatim>\<open>addNode(node)\<close> registers the node with the netlist; the nets of a block are kept in
  the order they were added.
\<close>

definition add_net :: "blockref \<Rightarrow> logicnet \<Rightarrow> unit py" where
  "add_net blk net = (\<lambda>s. (Inr (), s\<lparr>logic := (logic s)(blk := logic s blk @ [net])\<rparr>))"

text \<open>
  Modelled from the spec: \<^verbatim>\<open>wire.WireVector\<close> is not among the sources. Constructing one
  allocates a fresh signal of the given width in the block.
\<close>

definition WireVector :: "int \<Rightarrow> blockref option \<Rightarrow> wire py" where
  "WireVector bw b =
     bind_py (working_block b) (\<lambda>blk s.
       (Inr \<lparr>wire_obj = next_obj s, wire_bitwidth = bw, wire_const = None, wire_block = blk\<rparr>,
        s\<lparr>next_obj := next_obj s + 1\<rparr>))"

text \<open>
  Modelled from the spec: \<^verbatim>\<open>wire.Const\<close> is not among the sources. \<^verbatim>\<open>Const(v, bitwidth=w)\<close>
  is a fresh signal of width \<open>w\<close> that holds the constant \<open>v\<close>.
\<close>

definition Const :: "int \<Rightarrow> int \<Rightarrow> blockref option \<Rightarrow> wire py" where
  "Const v bw b =
     bind_py (working_block b) (\<lambda>blk s.
       (Inr \<lparr>wire_obj = next_obj s, wire_bitwidth = bw, wire_const = Some v, wire_block = blk\<rparr>,
        s\<lparr>next_obj := next_obj s + 1\<rparr>))"

text \<open>
  \<^verbatim>\<open>helperfuncs.as_wires\<close> and \<^verbatim>\<open>conditional.ConditionalUpdate._build_write_port\<close> are
  not among the sources and the spec leaves their behaviour to the collaborators that own
  them, so the methods below take them as parameters. Both may raise and both may change
  the world.
\<close>

record externals =
  as_wires :: "pyval \<Rightarrow> int option \<Rightarrow> bool \<Rightarrow> blockref option \<Rightarrow> wire py"
  cond_build_write_port :: "memref \<Rightarrow> wire \<Rightarrow> wire \<Rightarrow> wire \<Rightarrow> unit py"

section \<open>\<^verbatim>\<open>_MemIndexed\<close>\<close>

definition MemIndexed_ilshift :: "memindexed \<Rightarrow> pyval \<Rightarrow> pyval py" where
  "MemIndexed_ilshift self other = ret (PMemAssignment other False)"

definition MemIndexed_ior :: "memindexed \<Rightarrow> pyval \<Rightarrow> pyval py" where
  "MemIndexed_ior self other = ret (PMemAssignment other True)"

definition MemIndexed_len :: "memindexed \<Rightarrow> int py" where
  "MemIndexed_len self = attr bitwidth (mem self)"

text \<open>
  The other methods of the handle (\<^verbatim>\<open>logicop\<close>, \<^verbatim>\<open>__invert__\<close>, \<^verbatim>\<open>__getitem__\<close>,
  \<^verbatim>\<open>sign_extended\<close>, \<^verbatim>\<open>zero_extended\<close>) pass the handle to \<^verbatim>\<open>helperfuncs.as_wires\<close> and
  call the method of the same name on the signal that comes back; what they do is the
  collaborators' and is not modelled.
\<close>

section \<open>\<^verbatim>\<open>_MemReadBase\<close>\<close>

text \<open>
  \<^verbatim>\<open>__init__\<close> fills in the attributes of the object under construction; \<open>new_object\<close>
  is the allocation of that object, which is reachable only when \<^verbatim>\<open>__init__\<close> returns.
\<close>

definition new_object :: "memory py \<Rightarrow> memref py" where
  "new_object init =
     bind_py init (\<lambda>m s.
       (Inr (next_obj s), s\<lparr>next_obj := next_obj s + 1, heap := (heap s)(next_obj s := m)\<rparr>))"

definition MemReadBase_init ::
  "int \<Rightarrow> int \<Rightarrow> string option \<Rightarrow> blockref option \<Rightarrow> memory py" where
  "MemReadBase_init bw aw nm b =
     bind_py (working_block b) (\<lambda>blk.
     bind_py (next_tempvar_name nm) (\<lambda>nm'.
       if bw \<le> 0 then raise (PyrtlError ''error, bitwidth must be >= 1'')
       else if aw \<le> 0 then raise (PyrtlError ''error, addrwidth must be >= 1'')
       else
         bind_py next_memid (\<lambda>i.
           ret \<lparr>cls = MemReadBase_cls, block = blk, bitwidth = bw, name = nm', addrwidth = aw,
                readport_nets = [], memid = i, writeport_nets = [], data = no_data\<rparr>)))"

definition MemReadBase_getitem :: "externals \<Rightarrow> memref \<Rightarrow> pyval \<Rightarrow> memindexed py" where
  "MemReadBase_getitem X self item =
     bind_py (attr addrwidth self) (\<lambda>aw.
     bind_py (attr block self) (\<lambda>blk.
     bind_py (as_wires X item (Some aw) False (Some blk)) (\<lambda>item'.
     bind_py (attr addrwidth self) (\<lambda>aw'.
       if wire_bitwidth item' > aw'
       then raise (PyrtlError ''error, memory index bitwidth > addrwidth'')
       else ret (MemIndexed self item')))))"

definition append_readport :: "memref \<Rightarrow> logicnet \<Rightarrow> unit py" where
  "append_readport self net = (\<lambda>s.
     (Inr (), s\<lparr>heap := (heap s)(self :=
        (heap s self)\<lparr>readport_nets := readport_nets (heap s self) @ [net]\<rparr>)\<rparr>))"

definition MemReadBase_build_read_port :: "memref \<Rightarrow> wire \<Rightarrow> wire py" where
  "MemReadBase_build_read_port self addr =
     bind_py (attr bitwidth self) (\<lambda>bw.
     bind_py (attr block self) (\<lambda>blk.
     bind_py (WireVector bw (Some blk)) (\<lambda>data'.
     bind_py (attr memid self) (\<lambda>i.
     bind_py (ret \<lparr>op = CHR ''m'', op_param = (i, self), args = [addr], dests = [data']\<rparr>)
       (\<lambda>readport_net.
     bind_py (attr block self) (\<lambda>blk'.
     bind_py (add_net blk' readport_net) (\<lambda>_.
     bind_py (append_readport self readport_net) (\<lambda>_.
       ret data'))))))))"

definition MemReadBase_readaccess :: "memref \<Rightarrow> wire \<Rightarrow> wire py" where
  "MemReadBase_readaccess self addr = MemReadBase_build_read_port self addr"

definition MemReadBase_setitem :: "memref \<Rightarrow> pyval \<Rightarrow> pyval \<Rightarrow> unit py" where
  "MemReadBase_setitem self key val =
     raise (PyrtlInternalError ''error, invalid call __setitem__ made on _MemReadBase'')"


section \<open>\<^verbatim>\<open>MemBlock\<close>\<close>

definition MemBlock_init ::
  "int \<Rightarrow> int \<Rightarrow> string option \<Rightarrow> blockref option \<Rightarrow> memory py" where
  "MemBlock_init bw aw nm b =
     bind_py (MemReadBase_init bw aw nm b) (\<lambda>m.
       ret (m\<lparr>cls := MemBlock_cls, writeport_nets := []\<rparr>))"

text \<open>The constructor call \<^verbatim>\<open>MemBlock(bitwidth, addrwidth, name, block)\<close>.\<close>

definition MemBlock :: "int \<Rightarrow> int \<Rightarrow> string option \<Rightarrow> blockref option \<Rightarrow> memref py" where
  "MemBlock bw aw nm b = new_object (MemBlock_init bw aw nm b)"

definition append_writeport :: "memref \<Rightarrow> logicnet \<Rightarrow> unit py" where
  "append_writeport self net = (\<lambda>s.
     (Inr (), s\<lparr>heap := (heap s)(self :=
        (heap s self)\<lparr>writeport_nets := writeport_nets (heap s self) @ [net]\<rparr>)\<rparr>))"

definition MemBlock_build_write_port :: "memref \<Rightarrow> wire \<Rightarrow> wire \<Rightarrow> wire \<Rightarrow> unit py" where
  "MemBlock_build_write_port self addr data' enable =
     bind_py (attr memid self) (\<lambda>i.
     bind_py (ret \<lparr>op = CHR ''@'', op_param = (i, self), args = [addr, data', enable],
                   dests = []\<rparr>) (\<lambda>writeport_net.
     bind_py (attr block self) (\<lambda>blk.
     bind_py (add_net blk writeport_net) (\<lambda>_.
       append_writeport self writeport_net))))"

text \<open>
  \<^verbatim>\<open>_assignment\<close>, in the order of the source: the address is coerced and checked, the
  right-hand side is split or given the constant enable, data and enable are coerced, then
  the data width and the enable width are checked, and only then a port is built.
\<close>

definition MemBlock_assignment ::
  "externals \<Rightarrow> memref \<Rightarrow> pyval \<Rightarrow> pyval \<Rightarrow> bool \<Rightarrow> unit py" where
  "MemBlock_assignment X self item val is_conditional =
     bind_py (attr addrwidth self) (\<lambda>aw.
     bind_py (attr block self) (\<lambda>blk.
     bind_py (as_wires X item (Some aw) False (Some blk)) (\<lambda>item'.
     bind_py (attr addrwidth self) (\<lambda>aw'.
       if wire_bitwidth item' > aw'
       then raise (PyrtlError ''error, memory index bitwidth > addrwidth'')
       else
     bind_py (ret item') (\<lambda>addr.
     bind_py (case val of
                PEnabledWrite d e \<Rightarrow> ret (d, e)
              | _ \<Rightarrow> bind_py (attr block self) (\<lambda>blk1.
                     bind_py (Const 1 1 (Some blk1)) (\<lambda>c. ret (val, PWire c))))
       (\<lambda>(data0, enable0).
     bind_py (attr bitwidth self) (\<lambda>bw.
     bind_py (attr block self) (\<lambda>blk2.
     bind_py (as_wires X data0 (Some bw) False (Some blk2)) (\<lambda>data'.
     bind_py (attr block self) (\<lambda>blk3.
     bind_py (as_wires X enable0 (Some 1) False (Some blk3)) (\<lambda>enable.
     bind_py (attr bitwidth self) (\<lambda>bw'.
       if wire_bitwidth data' \<noteq> bw'
       then raise (PyrtlError ''error, write data larger than memory  bitwidth'')
       else if wire_bitwidth enable \<noteq> 1
       then raise (PyrtlError ''error, enable signal not exactly 1 bit'')
       else if is_conditional
       then cond_build_write_port X self addr data' enable
       else MemBlock_build_write_port self addr data' enable))))))))))))"

definition MemBlock_setitem :: "externals \<Rightarrow> memref \<Rightarrow> pyval \<Rightarrow> pyval \<Rightarrow> unit py" where
  "MemBlock_setitem X self item assignment =
     (case assignment of
        PMemAssignment rhs is_conditional \<Rightarrow> MemBlock_assignment X self item rhs is_conditional
      | _ \<Rightarrow> raise (PyrtlError (''error, assigment to memories should use '' @ [CHR 0x22] @
                 ''<<='' @ [CHR 0x22] @ '' not '' @ [CHR 0x22] @ ''='' @ [CHR 0x22] @
                 '' operator'')))"


section \<open>\<^verbatim>\<open>RomBlock\<close>\<close>

definition RomBlock_init ::
  "int \<Rightarrow> int \<Rightarrow> romdata \<Rightarrow> string option \<Rightarrow> blockref option \<Rightarrow> memory py" where
  "RomBlock_init bw aw d nm b =
     bind_py (MemReadBase_init bw aw nm b) (\<lambda>m.
       ret (m\<lparr>cls := RomBlock_cls, data := d\<rparr>))"

definition RomBlock ::
  "int \<Rightarrow> int \<Rightarrow> romdata \<Rightarrow> string option \<Rightarrow> blockref option \<Rightarrow> memref py" where
  "RomBlock bw aw d nm b = new_object (RomBlock_init bw aw d nm b)"

text \<open>
  \<^verbatim>\<open>self.data[address]\<close>. A list raises \<^verbatim>\<open>IndexError\<close> out of range and counts a negative
  index from the end; a function object is not subscriptable.
\<close>

definition py_subscript :: "romdata \<Rightarrow> int \<Rightarrow> pyexc + int" where
  "py_subscript d address =
     (case d of
        DFunction f \<Rightarrow> Inl TypeError
      | DList xs \<Rightarrow>
          (let n = int (length xs); j = (if address < 0 then n + address else address)
           in if 0 \<le> j \<and> j < n then Inr (xs ! nat j) else Inl IndexError)
      | DObject g \<Rightarrow> g address)"

text \<open>
  \<^verbatim>\<open>_get_read_data\<close> reads the attributes of \<open>self\<close> and changes nothing. Every constructed
  memory has \<open>bitwidth \<ge> 1\<close> and \<open>addrwidth \<ge> 1\<close>, so \<^verbatim>\<open>2**self.addrwidth\<close> is the
  integer \<open>2 ^ nat (addrwidth self)\<close>.
\<close>

definition RomBlock_get_read_data :: "memory \<Rightarrow> int \<Rightarrow> pyexc + int" where
  "RomBlock_get_read_data self address =
     (if address < 0 \<or> address > 2 ^ nat (addrwidth self) - 1
      then Inl (PyrtlError (''Error: Invalid address, '' @ str_int address @ '' specified''))
      else
        case (case data self of
                DFunction f \<Rightarrow>
                  (case f address of
                     Inr v \<Rightarrow> Inr v
                   | Inl e \<Rightarrow>
                       if is_Exception e
                       then Inl (PyrtlError ''Invalid data function for RomBlock'')
                       else Inl e)
              | d \<Rightarrow>
                  (case py_subscript d address of
                     Inr v \<Rightarrow> Inr v
                   | Inl TypeError \<Rightarrow> Inl (PyrtlError ''invalid type for RomBlock data object'')
                   | Inl IndexError \<Rightarrow>
                       Inl (PyrtlError (''An access to rom '' @ name self @ '' index '' @
                              str_int address @ '' is out of range''))
                   | Inl e \<Rightarrow> Inl e))
        of
          Inl e \<Rightarrow> Inl e
        | Inr v \<Rightarrow>
            if v < 0 \<or> v \<ge> 2 ^ nat (bitwidth self)
            then Inl (PyrtlError ''invalid value for RomBlock data'')
            else Inr v)"


section \<open>Method lookup and the statements that reach the methods\<close>

text \<open>
  \<^verbatim>\<open>mem[key] = value\<close> calls the \<^verbatim>\<open>__setitem__\<close> of the object's class: \<^verbatim>\<open>MemBlock\<close>
  overrides it, \<^verbatim>\<open>RomBlock\<close> inherits the one of \<^verbatim>\<open>_MemReadBase\<close>.
\<close>

definition setitem :: "externals \<Rightarrow> memref \<Rightarrow> pyval \<Rightarrow> pyval \<Rightarrow> unit py" where
  "setitem X self key val =
     bind_py (attr cls self) (\<lambda>c.
       case c of
         MemReadBase_cls \<Rightarrow> MemReadBase_setitem self key val
       | MemBlock_cls \<Rightarrow> MemBlock_setitem X self key val
       | RomBlock_cls \<Rightarrow> MemReadBase_setitem self key val)"


text \<open>
  The augmented assignments \<^verbatim>\<open>mem[a] <<= d\<close> and \<^verbatim>\<open>mem[a] |= d\<close>: Python indexes the
  memory, applies the operator to the handle and stores the result back under the same key.
\<close>

definition stmt_ilshift :: "externals \<Rightarrow> memref \<Rightarrow> pyval \<Rightarrow> pyval \<Rightarrow> unit py" where
  "stmt_ilshift X self a d =
     bind_py (MemReadBase_getitem X self a) (\<lambda>h.
     bind_py (MemIndexed_ilshift h d) (\<lambda>asg.
       setitem X self a asg))"

definition stmt_ior :: "externals \<Rightarrow> memref \<Rightarrow> pyval \<Rightarrow> pyval \<Rightarrow> unit py" where
  "stmt_ior X self a d =
     bind_py (MemReadBase_getitem X self a) (\<lambda>h.
     bind_py (MemIndexed_ior h d) (\<lambda>asg.
       setitem X self a asg))"

section \<open>A coercion facility and an arbitration component to run the methods with\<close>

text \<open>
  Modelled from the spec: \<^verbatim>\<open>helperfuncs.as_wires\<close> is not among the sources. In the spec
  the facility coerces a value to a signal of the target width, widens a narrower signal,
  never truncates unless asked to, and using an indexed-access handle as a value
  materializes a read port. An integer becomes a constant of the target width.
\<close>

definition coerce_wire :: "wire \<Rightarrow> int option \<Rightarrow> bool \<Rightarrow> blockref option \<Rightarrow> wire py" where
  "coerce_wire w bw truncating b =
     (case bw of
        None \<Rightarrow> ret w
      | Some t \<Rightarrow>
          if wire_bitwidth w < t then WireVector t b
          else if truncating \<and> t < wire_bitwidth w then WireVector t b
          else ret w)"

text \<open>
  Modelled from the spec: the dispatch of \<^verbatim>\<open>helperfuncs.as_wires\<close> on the kind of value,
  which is not among the sources. A signal is coerced as above, a handle is read first
  (\<^verbatim>\<open>_readaccess\<close>) and the result coerced, an integer becomes a constant, anything else
  is refused.
\<close>

definition as_wires_spec :: "pyval \<Rightarrow> int option \<Rightarrow> bool \<Rightarrow> blockref option \<Rightarrow> wire py" where
  "as_wires_spec val bw truncating b =
     (case val of
        PWire w \<Rightarrow> coerce_wire w bw truncating b
      | PMemIndexed h \<Rightarrow>
          bind_py (MemReadBase_readaccess (mem h) (index h)) (\<lambda>d.
            coerce_wire d bw truncating b)
      | PInt v \<Rightarrow>
          (case bw of
             Some t \<Rightarrow> Const v t b
           | None \<Rightarrow> raise (PyrtlError ''error, a constant needs a bitwidth''))
      | _ \<Rightarrow> raise (PyrtlError ''error, expecting a wirevector or an int''))"

text \<open>
  Modelled from the spec: \<^verbatim>\<open>conditional.ConditionalUpdate._build_write_port\<close> is not among
  the sources. In the spec the component ends by invoking the raw write-port builder once;
  outside every branch the enable it combines is the enable it was given.
\<close>

definition cond_spec :: "memref \<Rightarrow> wire \<Rightarrow> wire \<Rightarrow> wire \<Rightarrow> unit py" where
  "cond_spec self addr data' enable = MemBlock_build_write_port self addr data' enable"

definition X_spec :: externals where
  "X_spec = \<lparr>as_wires = as_wires_spec, cond_build_write_port = cond_spec\<rparr>"

section \<open>Concrete objects to run the methods on\<close>

definition blank_memory :: memory where
  "blank_memory =
     \<lparr>cls = MemReadBase_cls, block = 0, bitwidth = 1, name = [], addrwidth = 1,
      readport_nets = [], memid = 0, writeport_nets = [], data = no_data\<rparr>"

definition empty_world :: world where
  "empty_world =
     \<lparr>working = 0, tempvar_count = 0, memid_count = 0, next_obj = 0,
      logic = (\<lambda>_. []), heap = (\<lambda>_. blank_memory)\<rparr>"

text \<open>An 8-bit memory with 4 address bits, and a table of 16 entries of which two do not fit.\<close>

definition ram8x4 :: memory where
  "ram8x4 =
     \<lparr>cls = MemBlock_cls, block = 0, bitwidth = 8, name = ''tmp0'', addrwidth = 4,
      readport_nets = [], memid = 0, writeport_nets = [], data = no_data\<rparr>"

definition table16 :: "int list" where
  "table16 = [3, 1, 4, 1, 5, 9, 2, 6, 5, 3, 5, 8, 9, 7, 256, - 1]"

definition rom8x4 :: memory where
  "rom8x4 =
     \<lparr>cls = RomBlock_cls, block = 0, bitwidth = 8, name = ''tmp1'', addrwidth = 4,
      readport_nets = [], memid = 1, writeport_nets = [], data = DList table16\<rparr>"

text \<open>
  A generator-backed table: the function returns \<open>100 * k\<close>, raises \<^verbatim>\<open>ZeroDivisionError\<close>
  at 7 and \<^verbatim>\<open>KeyboardInterrupt\<close> at 9.
\<close>

definition gen100 :: "int \<Rightarrow> pyexc + int" where
  "gen100 k =
     (if k = 7 then Inl (OtherException ''ZeroDivisionError'')
      else if k = 9 then Inl (BaseExceptionOnly ''KeyboardInterrupt'')
      else Inr (100 * k))"

definition romgen8x4 :: memory where
  "romgen8x4 =
     \<lparr>cls = RomBlock_cls, block = 0, bitwidth = 8, name = ''tmp2'', addrwidth = 4,
      readport_nets = [], memid = 2, writeport_nets = [], data = DFunction gen100\<rparr>"

text \<open>
  A table whose data is callable without being a function object, such as
  \<^verbatim>\<open>functools.partial\<close> applied to the function above: \<^verbatim>\<open>isinstance(self.data,
  types.FunctionType)\<close> is false for it, and subscripting it raises \<^verbatim>\<open>TypeError\<close>.
\<close>

definition rompartial8x4 :: memory where
  "rompartial8x4 =
     \<lparr>cls = RomBlock_cls, block = 0, bitwidth = 8, name = ''tmp3'', addrwidth = 4,
      readport_nets = [], memid = 3, writeport_nets = [], data = DObject (\<lambda>_. Inl TypeError)\<rparr>"

definition sig_a :: wire where
  "sig_a = \<lparr>wire_obj = 3, wire_bitwidth = 4, wire_const = None, wire_block = 0\<rparr>"

definition sig_d :: wire where
  "sig_d = \<lparr>wire_obj = 4, wire_bitwidth = 8, wire_const = None, wire_block = 0\<rparr>"

definition sig_wide :: wire where
  "sig_wide = \<lparr>wire_obj = 5, wire_bitwidth = 9, wire_const = None, wire_block = 0\<rparr>"

definition sig_e2 :: wire where
  "sig_e2 = \<lparr>wire_obj = 6, wire_bitwidth = 2, wire_const = None, wire_block = 0\<rparr>"

text \<open>
  The world after constructing the three memories and the four signals in the empty
  world: the memories are the objects 0, 1 and 2.
\<close>

definition demo_world :: world where
  "demo_world =
     \<lparr>working = 0, tempvar_count = 3, memid_count = 3, next_obj = 7,
      logic = (\<lambda>_. []),
      heap = (\<lambda>_. blank_memory)(0 := ram8x4, 1 := rom8x4, 2 := romgen8x4)\<rparr>"

section \<open>Running a call\<close>

lemma bind_py_apply:
  "bind_py f g s = (case f s of (Inl e, s') \<Rightarrow> (Inl e, s') | (Inr x, s') \<Rightarrow> g x s')"
  by (simp add: bind_py_def)

lemma ret_apply: "ret x s = (Inr x, s)"
  by (simp add: ret_def)

lemma raise_apply: "raise e s = (Inl e, s)"
  by (simp add: raise_def)

lemma attr_apply: "attr f self s = (Inr (f (heap s self)), s)"
  by (simp add: attr_def)

lemmas py_simps = bind_py_apply ret_apply raise_apply attr_apply

lemma WireVector_apply:
  "WireVector bw (Some blk) s =
     (Inr \<lparr>wire_obj = next_obj s, wire_bitwidth = bw, wire_const = None, wire_block = blk\<rparr>,
      s\<lparr>next_obj := next_obj s + 1\<rparr>)"
  by (simp add: WireVector_def working_block_def py_simps)

lemma Const_apply:
  "Const v bw (Some blk) s =
     (Inr \<lparr>wire_obj = next_obj s, wire_bitwidth = bw, wire_const = Some v, wire_block = blk\<rparr>,
      s\<lparr>next_obj := next_obj s + 1\<rparr>)"
  by (simp add: Const_def working_block_def py_simps)

text \<open>What building a read port does to the world, in one step.\<close>

lemma build_read_port_apply:
  "MemReadBase_build_read_port self addr s =
     (let d = \<lparr>wire_obj = next_obj s, wire_bitwidth = bitwidth (heap s self),
                wire_const = None, wire_block = block (heap s self)\<rparr>;
          n = \<lparr>op = CHR ''m'', op_param = (memid (heap s self), self), args = [addr],
                dests = [d]\<rparr>
      in (Inr d,
          s\<lparr>next_obj := next_obj s + 1,
            logic := (logic s)(block (heap s self) := logic s (block (heap s self)) @ [n]),
            heap := (heap s)(self := (heap s self)
              \<lparr>readport_nets := readport_nets (heap s self) @ [n]\<rparr>)\<rparr>))"
  by (simp add: MemReadBase_build_read_port_def WireVector_apply py_simps add_net_def
        append_readport_def Let_def)

lemma build_write_port_apply:
  "MemBlock_build_write_port self addr dat en s =
     (let n = \<lparr>op = CHR ''@'', op_param = (memid (heap s self), self), args = [addr, dat, en],
                dests = []\<rparr>
      in (Inr (),
          s\<lparr>logic := (logic s)(block (heap s self) := logic s (block (heap s self)) @ [n]),
            heap := (heap s)(self := (heap s self)
              \<lparr>writeport_nets := writeport_nets (heap s self) @ [n]\<rparr>)\<rparr>))"
  by (simp add: MemBlock_build_write_port_def py_simps add_net_def append_writeport_def Let_def)

lemma MemReadBase_init_apply:
  "MemReadBase_init bw aw nm b s =
     (let blk = (case b of None \<Rightarrow> working s | Some x \<Rightarrow> x);
          nm' = (case nm of None \<Rightarrow> ''tmp'' @ str_nat (tempvar_count s) | Some x \<Rightarrow> x);
          s1 = (case nm of None \<Rightarrow> s\<lparr>tempvar_count := tempvar_count s + 1\<rparr> | Some x \<Rightarrow> s)
      in if bw \<le> 0 then (Inl (PyrtlError ''error, bitwidth must be >= 1''), s1)
         else if aw \<le> 0 then (Inl (PyrtlError ''error, addrwidth must be >= 1''), s1)
         else (Inr \<lparr>cls = MemReadBase_cls, block = blk, bitwidth = bw, name = nm',
                     addrwidth = aw, readport_nets = [], memid = memid_count s1,
                     writeport_nets = [], data = no_data\<rparr>,
               s1\<lparr>memid_count := memid_count s1 + 1\<rparr>))"
  by (cases nm)
     (simp_all add: MemReadBase_init_def working_block_def next_tempvar_name_def next_memid_def
        py_simps Let_def)

text \<open>The facility of the spec gives back a signal that is at least as wide as the target.\<close>

lemma as_wires_spec_wire:
  "t \<le> wire_bitwidth w \<Longrightarrow> as_wires X_spec (PWire w) (Some t) False b s = (Inr w, s)"
  by (simp add: X_spec_def as_wires_spec_def coerce_wire_def py_simps)

lemmas demo_defs = demo_world_def ram8x4_def rom8x4_def romgen8x4_def blank_memory_def
  sig_a_def sig_d_def sig_wide_def sig_e2_def

lemma digit_chars:
  "digit_char 0 = CHR ''0''" "digit_char 1 = CHR ''1''" "digit_char 2 = CHR ''2''"
  "digit_char (Suc 0) = CHR ''1''" "digit_char (Suc (Suc 0)) = CHR ''2''"
  by (code_simp+)

lemma str_int_examples: "str_int 16 = ''16''" "str_int (- 1) = ''-1''"
  by (code_simp+)

text \<open>
  The demonstration world is what the constructors leave: three memories and four signals
  built one after the other in the empty world.
\<close>

lemma demo_world_built:
  "bind_py (MemBlock 8 4 None None) (\<lambda>r0.
   bind_py (RomBlock 8 4 (DList table16) None None) (\<lambda>r1.
   bind_py (RomBlock 8 4 (DFunction gen100) None None) (\<lambda>r2.
   bind_py (WireVector 4 None) (\<lambda>a.
   bind_py (WireVector 8 None) (\<lambda>d.
   bind_py (WireVector 9 None) (\<lambda>w.
   bind_py (WireVector 2 None) (\<lambda>e.
     ret (r0, r1, r2, a, d, w, e)))))))) empty_world
   = (Inr (0, 1, 2, sig_a, sig_d, sig_wide, sig_e2), demo_world)"
  by (simp add: MemBlock_def RomBlock_def new_object_def MemBlock_init_def RomBlock_init_def
        MemReadBase_init_apply WireVector_def working_block_def py_simps Let_def
        empty_world_def demo_defs digit_chars numeral_2_eq_2)

section \<open>Construction\<close>

text \<open>
  Claim C3. For every pair of integers \<open>(bitwidth, addrwidth)\<close>, constructing a memory
  succeeds when both are at least 1 and fails with the configuration error when
  \<open>bitwidth \<le> 0\<close> or \<open>addrwidth \<le> 0\<close>. The three constructors share the checks of
  \<^verbatim>\<open>_MemReadBase.__init__\<close>, which raise \<^verbatim>\<open>PyrtlError\<close> with the message for the
  bitwidth first and for the address width second.
\<close>

theorem construction_checks_widths:
  "(1 \<le> bw \<and> 1 \<le> aw \<longrightarrow>
      (\<exists>m s'. MemReadBase_init bw aw nm b s = (Inr m, s') \<and>
               bitwidth m = bw \<and> addrwidth m = aw) \<and>
      (\<exists>r s'. MemBlock bw aw nm b s = (Inr r, s') \<and>
               bitwidth (heap s' r) = bw \<and> addrwidth (heap s' r) = aw) \<and>
      (\<exists>r s'. RomBlock bw aw d nm b s = (Inr r, s') \<and>
               bitwidth (heap s' r) = bw \<and> addrwidth (heap s' r) = aw)) \<and>
   (bw \<le> 0 \<longrightarrow>
      fst (MemReadBase_init bw aw nm b s) = Inl (PyrtlError ''error, bitwidth must be >= 1'') \<and>
      fst (MemBlock bw aw nm b s) = Inl (PyrtlError ''error, bitwidth must be >= 1'') \<and>
      fst (RomBlock bw aw d nm b s) = Inl (PyrtlError ''error, bitwidth must be >= 1'')) \<and>
   (0 < bw \<and> aw \<le> 0 \<longrightarrow>
      fst (MemReadBase_init bw aw nm b s) = Inl (PyrtlError ''error, addrwidth must be >= 1'') \<and>
      fst (MemBlock bw aw nm b s) = Inl (PyrtlError ''error, addrwidth must be >= 1'') \<and>
      fst (RomBlock bw aw d nm b s) = Inl (PyrtlError ''error, addrwidth must be >= 1''))"
  by (simp add: MemBlock_def RomBlock_def new_object_def MemBlock_init_def RomBlock_init_def
        MemReadBase_init_apply py_simps Let_def)

theorem construction_checks_widths_witness:
  "(\<exists>r s'. MemBlock 8 4 None None empty_world = (Inr r, s') \<and>
            bitwidth (heap s' r) = 8 \<and> addrwidth (heap s' r) = 4) \<and>
   (\<exists>r s'. RomBlock 1 1 (DList table16) (Some ''rom'') (Some 3) demo_world = (Inr r, s') \<and>
            bitwidth (heap s' r) = 1 \<and> addrwidth (heap s' r) = 1) \<and>
   fst (MemBlock 0 4 None None empty_world) = Inl (PyrtlError ''error, bitwidth must be >= 1'') \<and>
   fst (RomBlock (- 3) 0 (DList table16) None None empty_world)
     = Inl (PyrtlError ''error, bitwidth must be >= 1'') \<and>
   fst (MemBlock 8 0 None None empty_world) = Inl (PyrtlError ''error, addrwidth must be >= 1'')"
  using construction_checks_widths [where bw = 8 and aw = 4 and nm = None and b = None
          and s = empty_world]
        construction_checks_widths [where bw = 1 and aw = 1 and nm = "Some ''rom''"
          and b = "Some 3" and s = demo_world and d = "DList table16"]
        construction_checks_widths [where bw = 0 and aw = 4 and nm = None and b = None
          and s = empty_world]
        construction_checks_widths [where bw = "- 3" and aw = 0 and nm = None and b = None
          and s = empty_world and d = "DList table16"]
        construction_checks_widths [where bw = 8 and aw = 0 and nm = None and b = None
          and s = empty_world]
  by simp

section \<open>Read ports\<close>

text \<open>
  Claim C8. Reading the same address twice builds two read ports: each read allocates a
  fresh output signal of the memory's bitwidth and appends a node of its own to the read-port
  list of the memory and to the nets of its block. The two nodes differ, nothing is looked
  up or reused, and the list is longer by exactly 2.
\<close>

theorem readaccess_twice:
  "\<exists>d1 s1 d2 s2 n1 n2.
     MemReadBase_readaccess self addr s = (Inr d1, s1) \<and>
     MemReadBase_readaccess self addr s1 = (Inr d2, s2) \<and>
     n1 = \<lparr>op = CHR ''m'', op_param = (memid (heap s self), self), args = [addr], dests = [d1]\<rparr> \<and>
     n2 = \<lparr>op = CHR ''m'', op_param = (memid (heap s self), self), args = [addr], dests = [d2]\<rparr> \<and>
     n1 \<noteq> n2 \<and> d1 \<noteq> d2 \<and>
     readport_nets (heap s2 self) = readport_nets (heap s self) @ [n1, n2] \<and>
     length (readport_nets (heap s2 self)) = length (readport_nets (heap s self)) + 2 \<and>
     logic s2 (block (heap s self)) = logic s (block (heap s self)) @ [n1, n2] \<and>
     wire_bitwidth d1 = bitwidth (heap s self) \<and> wire_bitwidth d2 = bitwidth (heap s self) \<and>
     wire_obj d1 = next_obj s \<and> wire_obj d2 = next_obj s + 1"
  by (simp add: MemReadBase_readaccess_def build_read_port_apply Let_def)

section \<open>Indexing\<close>

text \<open>
  Claim C10. For a memory and an address expression that indexing accepts, the length of
  the handle \<^verbatim>\<open>mem[addr]\<close> is the bitwidth of the memory, and taking it builds nothing: the
  world, and with it the read-port list and the netlist, is the same before and after.
  Indexing itself only coerces the address and keeps the coerced signal in the handle. A
  use of the handle as a value goes through \<^verbatim>\<open>_readaccess\<close>, which does add a read port.
\<close>

theorem len_of_handle:
  assumes "MemReadBase_getitem X self item s = (Inr h, s')"
  shows "MemIndexed_len h s' = (Inr (bitwidth (heap s' self)), s') \<and>
         (\<exists>w. h = MemIndexed self w \<and> wire_bitwidth w \<le> addrwidth (heap s' self) \<and>
              as_wires X item (Some (addrwidth (heap s self))) False
                (Some (block (heap s self))) s = (Inr w, s')) \<and>
         length (readport_nets (heap (snd (MemReadBase_readaccess (mem h) (index h) s')) self))
           = length (readport_nets (heap s' self)) + 1"
  using assms
  by (auto simp add: MemReadBase_getitem_def MemIndexed_len_def MemReadBase_readaccess_def
        build_read_port_apply Let_def py_simps split: prod.splits sum.splits if_splits)

theorem len_of_handle_witness:
  "MemReadBase_getitem X_spec 0 (PWire sig_a) demo_world
     = (Inr (MemIndexed 0 sig_a), demo_world) \<and>
   MemIndexed_len (MemIndexed 0 sig_a) demo_world = (Inr 8, demo_world)"
proof -
  have g: "MemReadBase_getitem X_spec 0 (PWire sig_a) demo_world
             = (Inr (MemIndexed 0 sig_a), demo_world)"
    by (simp add: MemReadBase_getitem_def X_spec_def as_wires_spec_def coerce_wire_def
          py_simps demo_defs)
  show ?thesis
    using len_of_handle [OF g] g
    by (simp add: demo_defs)
qed

text \<open>
  Claim C6, as the claim has it: whenever the coerced address is wider than the address
  width, indexing and the write commit fail before any node is built and leave the port
  lists unchanged. The coercion comes first, and an address expression that is itself a
  handle is read by it: indexing the memory of 8 bits and 4 address bits with its own
  handle \<^verbatim>\<open>mem[a]\<close> builds the read port of the handle, gets a signal of 8 bits back and
  only then fails. After the failure the read-port list and the netlist hold one node
  more than before.
\<close>

theorem address_too_wide_counterexample:
  "fst (as_wires X_spec (PMemIndexed (MemIndexed 0 sig_a)) (Some 4) False (Some 0) demo_world)
     = Inr \<lparr>wire_obj = 7, wire_bitwidth = 8, wire_const = None, wire_block = 0\<rparr> \<and>
   addrwidth (heap demo_world 0) = 4 \<and>
   readport_nets (heap demo_world 0) = [] \<and> logic demo_world 0 = [] \<and>
   fst (MemReadBase_getitem X_spec 0 (PMemIndexed (MemIndexed 0 sig_a)) demo_world)
     = Inl (PyrtlError ''error, memory index bitwidth > addrwidth'') \<and>
   length (readport_nets (heap (snd (MemReadBase_getitem X_spec 0
      (PMemIndexed (MemIndexed 0 sig_a)) demo_world)) 0)) = 1 \<and>
   length (logic (snd (MemReadBase_getitem X_spec 0
      (PMemIndexed (MemIndexed 0 sig_a)) demo_world)) 0) = 1 \<and>
   fst (MemBlock_setitem X_spec 0 (PMemIndexed (MemIndexed 0 sig_a))
      (PMemAssignment (PWire sig_d) False) demo_world)
     = Inl (PyrtlError ''error, memory index bitwidth > addrwidth'') \<and>
   length (readport_nets (heap (snd (MemBlock_setitem X_spec 0
      (PMemIndexed (MemIndexed 0 sig_a)) (PMemAssignment (PWire sig_d) False) demo_world)) 0)) = 1 \<and>
   length (logic (snd (MemBlock_setitem X_spec 0
      (PMemIndexed (MemIndexed 0 sig_a)) (PMemAssignment (PWire sig_d) False) demo_world)) 0) = 1"
  by (simp add: MemReadBase_getitem_def MemBlock_setitem_def MemBlock_assignment_def X_spec_def
        as_wires_spec_def coerce_wire_def MemReadBase_readaccess_def build_read_port_apply
        Let_def py_simps demo_defs)

text \<open>
  Claim C6, amended. When the coercion of an address expression returns a signal wider
  than the address width of the memory, indexing and the write commit both fail with the
  address-width error (\<^verbatim>\<open>PyrtlError\<close>, "memory index bitwidth > addrwidth"). The check is
  the first thing after the coercion, so indexing and commit build no node of their own:
  the world after the failure is the world \<open>s'\<close> that the coercion returned, and the
  read-port list, the write-port list and the netlist are the ones the coercion left. They
  are the ones from before the call whenever the coercion builds nothing, as for an
  address that is a signal already.
\<close>

theorem address_too_wide:
  assumes "as_wires X item (Some (addrwidth (heap s self))) False (Some (block (heap s self))) s
             = (Inr w, s')"
      and "addrwidth (heap s' self) < wire_bitwidth w"
  shows "MemReadBase_getitem X self item s
           = (Inl (PyrtlError ''error, memory index bitwidth > addrwidth''), s') \<and>
         MemBlock_assignment X self item val is_conditional s
           = (Inl (PyrtlError ''error, memory index bitwidth > addrwidth''), s') \<and>
         MemBlock_setitem X self item (PMemAssignment val is_conditional) s
           = (Inl (PyrtlError ''error, memory index bitwidth > addrwidth''), s') \<and>
         readport_nets (heap (snd (MemReadBase_getitem X self item s)) self)
           = readport_nets (heap s' self) \<and>
         writeport_nets (heap (snd (MemReadBase_getitem X self item s)) self)
           = writeport_nets (heap s' self) \<and>
         logic (snd (MemReadBase_getitem X self item s)) = logic s' \<and>
         readport_nets
             (heap (snd (MemBlock_setitem X self item (PMemAssignment val is_conditional) s)) self)
           = readport_nets (heap s' self) \<and>
         writeport_nets
             (heap (snd (MemBlock_setitem X self item (PMemAssignment val is_conditional) s)) self)
           = writeport_nets (heap s' self) \<and>
         logic (snd (MemBlock_setitem X self item (PMemAssignment val is_conditional) s))
           = logic s'"
  using assms
  by (simp add: MemReadBase_getitem_def MemBlock_assignment_def MemBlock_setitem_def py_simps)

theorem address_too_wide_witness:
  "MemReadBase_getitem X_spec 0 (PWire sig_wide) demo_world
     = (Inl (PyrtlError ''error, memory index bitwidth > addrwidth''), demo_world) \<and>
   MemBlock_setitem X_spec 0 (PWire sig_wide) (PMemAssignment (PWire sig_d) False) demo_world
     = (Inl (PyrtlError ''error, memory index bitwidth > addrwidth''), demo_world) \<and>
   MemReadBase_getitem X_spec 1 (PWire sig_wide) demo_world
     = (Inl (PyrtlError ''error, memory index bitwidth > addrwidth''), demo_world)"
proof -
  have h1: "as_wires X_spec (PWire sig_wide) (Some (addrwidth (heap demo_world 0))) False
              (Some (block (heap demo_world 0))) demo_world = (Inr sig_wide, demo_world)"
    by (rule as_wires_spec_wire) (simp add: demo_defs)
  have h2: "addrwidth (heap demo_world 0) < wire_bitwidth sig_wide"
    by (simp add: demo_defs)
  have g1: "as_wires X_spec (PWire sig_wide) (Some (addrwidth (heap demo_world 1))) False
              (Some (block (heap demo_world 1))) demo_world = (Inr sig_wide, demo_world)"
    by (rule as_wires_spec_wire) (simp add: demo_defs)
  have g2: "addrwidth (heap demo_world 1) < wire_bitwidth sig_wide"
    by (simp add: demo_defs)
  show ?thesis
    using address_too_wide [OF h1 h2, of "PWire sig_d" False]
      address_too_wide [OF g1 g2, of "PWire sig_d" False]
    by simp
qed

section \<open>Write commit\<close>

text \<open>
  The two phases of a write: \<^verbatim>\<open>mem[a] <<= d\<close> indexes the memory, and when that has
  returned a handle it commits the intent \<^verbatim>\<open>_MemAssignment(d, False)\<close> under the same key;
  on a \<^verbatim>\<open>MemBlock\<close> the commit is \<^verbatim>\<open>MemBlock.__setitem__\<close>.
\<close>

lemma stmt_ilshift_commits:
  "MemReadBase_getitem X self a s = (Inr h, s') \<Longrightarrow>
   stmt_ilshift X self a d s = setitem X self a (PMemAssignment d False) s'"
  by (simp add: stmt_ilshift_def MemIndexed_ilshift_def py_simps)

lemma stmt_ior_commits:
  "MemReadBase_getitem X self a s = (Inr h, s') \<Longrightarrow>
   stmt_ior X self a d s = setitem X self a (PMemAssignment d True) s'"
  by (simp add: stmt_ior_def MemIndexed_ior_def py_simps)

lemma setitem_MemBlock:
  "cls (heap s self) = MemBlock_cls \<Longrightarrow> setitem X self key val s = MemBlock_setitem X self key val s"
  by (simp add: setitem_def py_simps)

text \<open>
  Claim C1. Committing the unconditional write \<^verbatim>\<open>mem[a] <<= d\<close>, where \<open>d\<close> is not an
  \<^verbatim>\<open>EnabledWrite\<close> and coerces to exactly the bitwidth of the memory, adds exactly one node
  to the write-port list of the memory and to the nets of its block. The node is a write
  port (\<open>@\<close>) with the arguments address, data and enable, where the enable is the constant
  1 of width 1 that the commit has just made, and it has no result.

  The coercions are the collaborator's: \<open>s1\<close> is the world after the address, which has
  passed the width check, \<open>s2\<close> after the data, \<open>s3\<close> after the enable, which the
  coercion to width 1 returns as it is.
\<close>

theorem unconditional_write:
  fixes X self a d s s1 s2 s3 addr dat
  defines "c \<equiv> \<lparr>wire_obj = next_obj s1, wire_bitwidth = 1, wire_const = Some 1,
                   wire_block = block (heap s1 self)\<rparr>"
  defines "net \<equiv> \<lparr>op = CHR ''@'', op_param = (memid (heap s3 self), self),
                     args = [addr, dat, c], dests = []\<rparr>"
  assumes addr: "as_wires X a (Some (addrwidth (heap s self))) False (Some (block (heap s self))) s
                   = (Inr addr, s1)"
      and addr_ok: "wire_bitwidth addr \<le> addrwidth (heap s1 self)"
      and plain: "\<forall>x y. d \<noteq> PEnabledWrite x y"
      and dat: "as_wires X d (Some (bitwidth (heap s1 self))) False (Some (block (heap s1 self)))
                  (s1\<lparr>next_obj := next_obj s1 + 1\<rparr>) = (Inr dat, s2)"
      and en: "as_wires X (PWire c) (Some 1) False (Some (block (heap s2 self))) s2 = (Inr c, s3)"
      and dat_ok: "wire_bitwidth dat = bitwidth (heap s3 self)"
  shows "MemBlock_setitem X self a (PMemAssignment d False) s =
           (Inr (),
            s3\<lparr>logic := (logic s3)(block (heap s3 self) :=
                  logic s3 (block (heap s3 self)) @ [net]),
               heap := (heap s3)(self := (heap s3 self)
                 \<lparr>writeport_nets := writeport_nets (heap s3 self) @ [net]\<rparr>)\<rparr>)"
proof -
  have not_pair: "(case d of PEnabledWrite x y \<Rightarrow> f x y | _ \<Rightarrow> g) = g"
    for f and g :: "(pyval \<times> pyval) py"
    using plain by (cases d) simp_all
  have c1: "wire_bitwidth c = 1"
    by (simp add: c_def)
  have const: "Const 1 1 (Some (block (heap s1 self))) s1
                 = (Inr c, s1\<lparr>next_obj := next_obj s1 + 1\<rparr>)"
    by (simp add: Const_apply c_def)
  show ?thesis
    using addr addr_ok dat en dat_ok c1
    by (simp add: MemBlock_setitem_def MemBlock_assignment_def not_pair const
          build_write_port_apply Let_def py_simps net_def)
qed

theorem unconditional_write_witness:
  "MemBlock_setitem X_spec 0 (PWire sig_a) (PMemAssignment (PWire sig_d) False) demo_world =
     (Inr (),
      demo_world\<lparr>next_obj := 8,
        logic := (logic demo_world)(0 :=
          [\<lparr>op = CHR ''@'', op_param = (0, 0),
            args = [sig_a, sig_d,
                    \<lparr>wire_obj = 7, wire_bitwidth = 1, wire_const = Some 1, wire_block = 0\<rparr>],
            dests = []\<rparr>]),
        heap := (heap demo_world)(0 := ram8x4\<lparr>writeport_nets :=
          [\<lparr>op = CHR ''@'', op_param = (0, 0),
            args = [sig_a, sig_d,
                    \<lparr>wire_obj = 7, wire_bitwidth = 1, wire_const = Some 1, wire_block = 0\<rparr>],
            dests = []\<rparr>]\<rparr>)\<rparr>)"
proof -
  have h1: "as_wires X_spec (PWire sig_a) (Some (addrwidth (heap demo_world 0))) False
              (Some (block (heap demo_world 0))) demo_world = (Inr sig_a, demo_world)"
    by (rule as_wires_spec_wire) (simp add: demo_defs)
  have h2: "wire_bitwidth sig_a \<le> addrwidth (heap demo_world 0)"
    by (simp add: demo_defs)
  have h3: "\<forall>x y. PWire sig_d \<noteq> PEnabledWrite x y"
    by simp
  have h4: "as_wires X_spec (PWire sig_d) (Some (bitwidth (heap demo_world 0))) False
              (Some (block (heap demo_world 0)))
              (demo_world\<lparr>next_obj := next_obj demo_world + 1\<rparr>)
              = (Inr sig_d, demo_world\<lparr>next_obj := next_obj demo_world + 1\<rparr>)"
    by (rule as_wires_spec_wire) (simp add: demo_defs)
  have h5: "as_wires X_spec
              (PWire \<lparr>wire_obj = next_obj demo_world, wire_bitwidth = 1, wire_const = Some 1,
                      wire_block = block (heap demo_world 0)\<rparr>)
              (Some 1) False
              (Some (block (heap (demo_world\<lparr>next_obj := next_obj demo_world + 1\<rparr>) 0)))
              (demo_world\<lparr>next_obj := next_obj demo_world + 1\<rparr>)
              = (Inr \<lparr>wire_obj = next_obj demo_world, wire_bitwidth = 1, wire_const = Some 1,
                      wire_block = block (heap demo_world 0)\<rparr>,
                 demo_world\<lparr>next_obj := next_obj demo_world + 1\<rparr>)"
    by (rule as_wires_spec_wire) simp
  have h6: "wire_bitwidth sig_d
              = bitwidth (heap (demo_world\<lparr>next_obj := next_obj demo_world + 1\<rparr>) 0)"
    by (simp add: demo_defs)
  show ?thesis
    using unconditional_write [OF h1 h2 h3 h4 h5 h6]
    by (simp add: demo_defs)
qed

text \<open>
  Claim C4, as the claim has it: every \<^verbatim>\<open>EnabledWrite\<close> whose enable is not 1 bit wide after
  coercion makes the commit fail with the enable-width error, and the netlist gains no
  node. It fails in both parts. \<^verbatim>\<open>_assignment\<close> checks the data first, so a 9-bit data
  signal with a 2-bit enable, written to the 8-bit memory, fails with the data-width error.
  And data and enable are coerced before either check: when the data is the handle
  \<^verbatim>\<open>mem[a]\<close> its read port is built by the coercion, the commit then fails with the
  enable-width error, and the netlist and the read-port list hold one node more than before.
\<close>

theorem enable_width_counterexample:
  "as_wires X_spec (PWire sig_e2) (Some 1) False (Some 0) demo_world = (Inr sig_e2, demo_world) \<and>
   wire_bitwidth sig_e2 = 2 \<and>
   MemBlock_setitem X_spec 0 (PWire sig_a)
       (PMemAssignment (PEnabledWrite (PWire sig_wide) (PWire sig_e2)) False) demo_world
     = (Inl (PyrtlError ''error, write data larger than memory  bitwidth''), demo_world) \<and>
   logic demo_world 0 = [] \<and> readport_nets (heap demo_world 0) = [] \<and>
   fst (MemBlock_setitem X_spec 0 (PWire sig_a)
       (PMemAssignment (PEnabledWrite (PMemIndexed (MemIndexed 0 sig_a)) (PWire sig_e2)) False)
       demo_world)
     = Inl (PyrtlError ''error, enable signal not exactly 1 bit'') \<and>
   logic (snd (MemBlock_setitem X_spec 0 (PWire sig_a)
       (PMemAssignment (PEnabledWrite (PMemIndexed (MemIndexed 0 sig_a)) (PWire sig_e2)) False)
       demo_world)) 0
     = [\<lparr>op = CHR ''m'', op_param = (0, 0), args = [sig_a],
         dests = [\<lparr>wire_obj = 7, wire_bitwidth = 8, wire_const = None, wire_block = 0\<rparr>]\<rparr>] \<and>
   length (readport_nets (heap (snd (MemBlock_setitem X_spec 0 (PWire sig_a)
       (PMemAssignment (PEnabledWrite (PMemIndexed (MemIndexed 0 sig_a)) (PWire sig_e2)) False)
       demo_world)) 0)) = 1"
  by (simp add: MemBlock_setitem_def MemBlock_assignment_def X_spec_def as_wires_spec_def
        coerce_wire_def MemReadBase_readaccess_def build_read_port_apply Let_def py_simps
        demo_defs)

text \<open>
  Claim C4, amended. For an \<^verbatim>\<open>EnabledWrite(d, e)\<close> whose address passes the address-width
  check and whose data has exactly the bitwidth of the memory after coercion, an enable
  that is not 1 bit wide after coercion makes the commit fail with the enable-width error
  (\<^verbatim>\<open>PyrtlError\<close>, "enable signal not exactly 1 bit"), for a conditional and for an
  unconditional intent. The commit builds no node: the world after the failure is the
  world \<open>s3\<close> that the three coercions left.
\<close>

theorem enable_width_error:
  assumes addr: "as_wires X a (Some (addrwidth (heap s self))) False (Some (block (heap s self))) s
                   = (Inr addr, s1)"
      and addr_ok: "wire_bitwidth addr \<le> addrwidth (heap s1 self)"
      and dat: "as_wires X d (Some (bitwidth (heap s1 self))) False (Some (block (heap s1 self))) s1
                  = (Inr dat, s2)"
      and en: "as_wires X e (Some 1) False (Some (block (heap s2 self))) s2 = (Inr en, s3)"
      and dat_ok: "wire_bitwidth dat = bitwidth (heap s3 self)"
      and en_bad: "wire_bitwidth en \<noteq> 1"
  shows "MemBlock_setitem X self a (PMemAssignment (PEnabledWrite d e) is_conditional) s =
           (Inl (PyrtlError ''error, enable signal not exactly 1 bit''), s3) \<and>
         writeport_nets
             (heap (snd (MemBlock_setitem X self a
                (PMemAssignment (PEnabledWrite d e) is_conditional) s)) self)
           = writeport_nets (heap s3 self) \<and>
         logic (snd (MemBlock_setitem X self a
                (PMemAssignment (PEnabledWrite d e) is_conditional) s)) = logic s3"
  using assms
  by (simp add: MemBlock_setitem_def MemBlock_assignment_def py_simps)

theorem enable_width_error_witness:
  "MemBlock_setitem X_spec 0 (PWire sig_a)
       (PMemAssignment (PEnabledWrite (PWire sig_d) (PWire sig_e2)) False) demo_world
     = (Inl (PyrtlError ''error, enable signal not exactly 1 bit''), demo_world) \<and>
   MemBlock_setitem X_spec 0 (PWire sig_a)
       (PMemAssignment (PEnabledWrite (PWire sig_d) (PWire sig_e2)) True) demo_world
     = (Inl (PyrtlError ''error, enable signal not exactly 1 bit''), demo_world)"
proof -
  have h1: "as_wires X_spec (PWire sig_a) (Some (addrwidth (heap demo_world 0))) False
              (Some (block (heap demo_world 0))) demo_world = (Inr sig_a, demo_world)"
    by (rule as_wires_spec_wire) (simp add: demo_defs)
  have h2: "wire_bitwidth sig_a \<le> addrwidth (heap demo_world 0)"
    by (simp add: demo_defs)
  have h3: "as_wires X_spec (PWire sig_d) (Some (bitwidth (heap demo_world 0))) False
              (Some (block (heap demo_world 0))) demo_world = (Inr sig_d, demo_world)"
    by (rule as_wires_spec_wire) (simp add: demo_defs)
  have h4: "as_wires X_spec (PWire sig_e2) (Some 1) False
              (Some (block (heap demo_world 0))) demo_world = (Inr sig_e2, demo_world)"
    by (rule as_wires_spec_wire) (simp add: demo_defs)
  have h5: "wire_bitwidth sig_d = bitwidth (heap demo_world 0)"
    by (simp add: demo_defs)
  have h6: "wire_bitwidth sig_e2 \<noteq> 1"
    by (simp add: demo_defs)
  show ?thesis
    using enable_width_error [OF h1 h2 h3 h4 h5 h6, of False]
      enable_width_error [OF h1 h2 h3 h4 h5 h6, of True]
    by simp
qed

section \<open>Read-only memories\<close>

text \<open>
  Claim C7. On a read-only table, and on the shared base, every call of the assignment
  handler fails, whatever the key and the value: \<^verbatim>\<open>RomBlock\<close> inherits
  \<^verbatim>\<open>_MemReadBase.__setitem__\<close>, which raises \<^verbatim>\<open>PyrtlInternalError\<close> and touches nothing.
  The handler is reached by a plain assignment and, once indexing has returned a handle, by
  \<^verbatim>\<open><<=\<close> and by \<^verbatim>\<open>|=\<close>; each of the three paths ends in that error.
\<close>

theorem readonly_setitem:
  "MemReadBase_setitem self key val s
     = (Inl (PyrtlInternalError ''error, invalid call __setitem__ made on _MemReadBase''), s) \<and>
   (cls (heap s self) = RomBlock_cls \<or> cls (heap s self) = MemReadBase_cls \<longrightarrow>
      setitem X self key val s
        = (Inl (PyrtlInternalError ''error, invalid call __setitem__ made on _MemReadBase''), s)) \<and>
   (\<forall>h s1. MemReadBase_getitem X self key s = (Inr h, s1) \<and>
            (cls (heap s1 self) = RomBlock_cls \<or> cls (heap s1 self) = MemReadBase_cls) \<longrightarrow>
      stmt_ilshift X self key val s
        = (Inl (PyrtlInternalError ''error, invalid call __setitem__ made on _MemReadBase''), s1) \<and>
      stmt_ior X self key val s
        = (Inl (PyrtlInternalError ''error, invalid call __setitem__ made on _MemReadBase''), s1))"
  by (auto simp add: MemReadBase_setitem_def setitem_def stmt_ilshift_def stmt_ior_def
        MemIndexed_ilshift_def MemIndexed_ior_def py_simps)

theorem readonly_setitem_witness:
  "setitem X_spec 1 (PWire sig_a) (PMemAssignment (PWire sig_d) False) demo_world
     = (Inl (PyrtlInternalError ''error, invalid call __setitem__ made on _MemReadBase''),
        demo_world) \<and>
   setitem X_spec 2 (PInt 3) (PInt 5) demo_world
     = (Inl (PyrtlInternalError ''error, invalid call __setitem__ made on _MemReadBase''),
        demo_world) \<and>
   stmt_ilshift X_spec 1 (PWire sig_a) (PWire sig_d) demo_world
     = (Inl (PyrtlInternalError ''error, invalid call __setitem__ made on _MemReadBase''),
        demo_world)"
proof -
  have g: "MemReadBase_getitem X_spec 1 (PWire sig_a) demo_world
             = (Inr (MemIndexed 1 sig_a), demo_world)"
    by (simp add: MemReadBase_getitem_def X_spec_def as_wires_spec_def coerce_wire_def
          py_simps demo_defs)
  have c1: "cls (heap demo_world 1) = RomBlock_cls" and c2: "cls (heap demo_world 2) = RomBlock_cls"
    by (simp_all add: demo_defs)
  show ?thesis
    using readonly_setitem [of 1 "PWire sig_a" "PMemAssignment (PWire sig_d) False" demo_world
            X_spec]
      readonly_setitem [of 2 "PInt 3" "PInt 5" demo_world X_spec]
      readonly_setitem [of 1 "PWire sig_a" "PWire sig_d" demo_world X_spec]
      g c1 c2
    by simp
qed

section \<open>Clone\<close>



section \<open>Resolving a table\<close>

text \<open>
  Claim C2. For a table with address width 4 backed by a list of 16 entries,
  \<^verbatim>\<open>_get_read_data(k)\<close> returns entry \<open>k\<close> of the list for \<open>k\<close> from 0 to 15 when the entry
  lies in \<open>[0, 2^bitwidth)\<close>; it fails with the value error (\<^verbatim>\<open>PyrtlError\<close>, "invalid value
  for RomBlock data") when the entry is negative or at least \<open>2^bitwidth\<close>; and it fails
  with the address error (\<^verbatim>\<open>PyrtlError\<close>, "Invalid address") for 16 and for every other
  address outside \<open>[0, 15]\<close>.
\<close>

theorem rom_table_resolve:
  assumes "addrwidth self = 4" and "data self = DList xs" and "length xs = 16"
  shows "(0 \<le> k \<and> k \<le> 15 \<and> 0 \<le> xs ! nat k \<and> xs ! nat k < 2 ^ nat (bitwidth self) \<longrightarrow>
            RomBlock_get_read_data self k = Inr (xs ! nat k)) \<and>
         (k < 0 \<or> 15 < k \<longrightarrow>
            RomBlock_get_read_data self k
              = Inl (PyrtlError (''Error: Invalid address, '' @ str_int k @ '' specified''))) \<and>
         (0 \<le> k \<and> k \<le> 15 \<and> (xs ! nat k < 0 \<or> 2 ^ nat (bitwidth self) \<le> xs ! nat k) \<longrightarrow>
            RomBlock_get_read_data self k = Inl (PyrtlError ''invalid value for RomBlock data''))"
  using assms
  by (auto simp add: RomBlock_get_read_data_def py_subscript_def Let_def)

theorem rom_table_resolve_witness:
  "RomBlock_get_read_data rom8x4 0 = Inr 3 \<and>
   RomBlock_get_read_data rom8x4 13 = Inr 7 \<and>
   RomBlock_get_read_data rom8x4 16
     = Inl (PyrtlError ''Error: Invalid address, 16 specified'') \<and>
   RomBlock_get_read_data rom8x4 (- 1)
     = Inl (PyrtlError ''Error: Invalid address, -1 specified'') \<and>
   RomBlock_get_read_data rom8x4 14 = Inl (PyrtlError ''invalid value for RomBlock data'') \<and>
   RomBlock_get_read_data rom8x4 15 = Inl (PyrtlError ''invalid value for RomBlock data'')"
proof -
  have a: "addrwidth rom8x4 = 4" and d: "data rom8x4 = DList table16" and l: "length table16 = 16"
    by (simp_all add: rom8x4_def table16_def)
  have b: "bitwidth rom8x4 = 8"
    by (simp add: rom8x4_def)
  have t: "table16 ! 0 = 3" "table16 ! 13 = 7" "table16 ! 14 = 256" "table16 ! 15 = - 1"
    by (simp_all add: table16_def)
  show ?thesis
    using rom_table_resolve [OF a d l, of 0] rom_table_resolve [OF a d l, of 13]
      rom_table_resolve [OF a d l, of 16] rom_table_resolve [OF a d l, of "- 1"]
      rom_table_resolve [OF a d l, of 14] rom_table_resolve [OF a d l, of 15]
    by (simp add: b t str_int_examples)
qed

text \<open>
  Claim C5, as the claim has it: a generator-backed table resolves every address in range
  to \<open>f(k)\<close>, and every fault of \<open>f\<close> comes back as the resolution error. Three things
  stand against it. The value check applies to a generator as it does to a list: with 8
  bits, \<open>f(3) = 300\<close> is refused with the value error. \<^verbatim>\<open>except Exception\<close> lets an
  exception that does not derive from \<^verbatim>\<open>Exception\<close> through: a \<^verbatim>\<open>KeyboardInterrupt\<close>
  raised in \<open>f\<close> leaves the method as it is. And only a function object is called: a
  generator wrapped in \<^verbatim>\<open>functools.partial\<close> is never invoked, the method subscripts it
  instead and fails with the error for an invalid data object, although \<open>f(2) = 200\<close> fits.
\<close>

theorem rom_generator_counterexample:
  "gen100 3 = Inr 300 \<and>
   RomBlock_get_read_data romgen8x4 3 = Inl (PyrtlError ''invalid value for RomBlock data'') \<and>
   gen100 9 = Inl (BaseExceptionOnly ''KeyboardInterrupt'') \<and>
   RomBlock_get_read_data romgen8x4 9 = Inl (BaseExceptionOnly ''KeyboardInterrupt'') \<and>
   gen100 2 = Inr 200 \<and>
   RomBlock_get_read_data rompartial8x4 2
     = Inl (PyrtlError ''invalid type for RomBlock data object'')"
  by (simp add: RomBlock_get_read_data_def py_subscript_def romgen8x4_def rompartial8x4_def
        gen100_def)

text \<open>
  Claim C5, amended. For a table whose data source is a function object
  (\<^verbatim>\<open>types.FunctionType\<close>) \<open>f\<close> and an address \<open>k\<close> in range, \<^verbatim>\<open>_get_read_data(k)\<close> returns
  \<open>f(k)\<close> when \<open>f(k)\<close> lies in \<open>[0, 2^bitwidth)\<close> and fails with the value error
  otherwise; when \<open>f\<close> raises an exception that derives from \<^verbatim>\<open>Exception\<close> the method
  fails with the resolution error (\<^verbatim>\<open>PyrtlError\<close>, "Invalid data function for RomBlock")
  and the raw exception is not passed on; any other exception is passed on.
\<close>

theorem rom_generator_resolve:
  assumes "data self = DFunction f" and "0 \<le> k" and "k \<le> 2 ^ nat (addrwidth self) - 1"
  shows "(\<forall>v. f k = Inr v \<and> 0 \<le> v \<and> v < 2 ^ nat (bitwidth self) \<longrightarrow>
            RomBlock_get_read_data self k = Inr v) \<and>
         (\<forall>v. f k = Inr v \<and> (v < 0 \<or> 2 ^ nat (bitwidth self) \<le> v) \<longrightarrow>
            RomBlock_get_read_data self k = Inl (PyrtlError ''invalid value for RomBlock data'')) \<and>
         (\<forall>e. f k = Inl e \<and> is_Exception e \<longrightarrow>
            RomBlock_get_read_data self k
              = Inl (PyrtlError ''Invalid data function for RomBlock'')) \<and>
         (\<forall>e. f k = Inl e \<and> \<not> is_Exception e \<longrightarrow> RomBlock_get_read_data self k = Inl e)"
  using assms
  by (auto simp add: RomBlock_get_read_data_def)

theorem rom_generator_resolve_witness:
  "RomBlock_get_read_data romgen8x4 2 = Inr 200 \<and>
   RomBlock_get_read_data romgen8x4 7 = Inl (PyrtlError ''Invalid data function for RomBlock'') \<and>
   RomBlock_get_read_data romgen8x4 3 = Inl (PyrtlError ''invalid value for RomBlock data'') \<and>
   RomBlock_get_read_data romgen8x4 9 = Inl (BaseExceptionOnly ''KeyboardInterrupt'')"
proof -
  have d: "data romgen8x4 = DFunction gen100"
    by (simp add: romgen8x4_def)
  have r: "(0::int) \<le> 2" "(2::int) \<le> 2 ^ nat (addrwidth romgen8x4) - 1"
    "(0::int) \<le> 7" "(7::int) \<le> 2 ^ nat (addrwidth romgen8x4) - 1"
    "(0::int) \<le> 3" "(3::int) \<le> 2 ^ nat (addrwidth romgen8x4) - 1"
    "(0::int) \<le> 9" "(9::int) \<le> 2 ^ nat (addrwidth romgen8x4) - 1"
    by (simp_all add: romgen8x4_def)
  show ?thesis
    using rom_generator_resolve [OF d r(1) r(2)] rom_generator_resolve [OF d r(3) r(4)]
      rom_generator_resolve [OF d r(5) r(6)] rom_generator_resolve [OF d r(7) r(8)]
    by (simp add: gen100_def romgen8x4_def)
qed

end
